theory Spec2Isabelle
  imports Main "HOL-Library.Word"
begin

section \<open>Pixel data\<close>

text \<open>
  The program (\<^verbatim>\<open>remove_bg.py\<close>) is one image transform, \<^verbatim>\<open>remove_background\<close>, and
  the page script \<^verbatim>\<open>main\<close> that calls it. Both work on Pillow images and numpy arrays
  of 8-bit samples. A raster keeps its size beside its rows, as a Pillow image and an
  array do: \<open>xsize\<close> is the width, \<open>ysize\<close> the height, \<open>rows\<close> holds \<open>ysize\<close> rows of
  \<open>xsize\<close> pixels each.
\<close>

type_synonym u8 = "8 word"
type_synonym la = "u8 \<times> u8"
type_synonym rgb = "u8 \<times> u8 \<times> u8"
type_synonym rgba = "u8 \<times> u8 \<times> u8 \<times> u8"

record 'p raster =
  xsize :: nat
  ysize :: nat
  rows :: "'p list list"

definition wf_raster :: "'p raster \<Rightarrow> bool" where
  "wf_raster g = (length (rows g) = ysize g \<and> list_all (\<lambda>row. length row = xsize g) (rows g))"

definition getpixel :: "'p raster \<Rightarrow> nat \<Rightarrow> nat \<Rightarrow> 'p" where
  "getpixel g x y = rows g ! y ! x"

definition alpha :: "rgba \<Rightarrow> u8" where
  "alpha p = (case p of (r, g, b, a) \<Rightarrow> a)"

definition map_raster :: "('p \<Rightarrow> 'q) \<Rightarrow> 'p raster \<Rightarrow> 'q raster" where
  "map_raster f g = \<lparr>xsize = xsize g, ysize = ysize g, rows = map (map f) (rows g)\<rparr>"

text \<open>
  A Pillow image has a mode. The modes modelled are the 8-bit ones: \<^verbatim>\<open>L\<close> (grey),
  \<^verbatim>\<open>LA\<close> (grey with alpha), \<^verbatim>\<open>RGB\<close>, \<^verbatim>\<open>RGBA\<close> and \<^verbatim>\<open>RGBa\<close> (colour premultiplied
  by alpha). An image of mode \<^verbatim>\<open>L\<close> or \<^verbatim>\<open>RGB\<close> may carry \<^verbatim>\<open>info["transparency"]\<close>, the
  one colour that stands for full transparency (a PNG file's \<^verbatim>\<open>tRNS\<close> chunk); it is the
  second argument of the constructor.
  \<^verbatim>\<open>np.array(image)\<close> is the array of the image's samples, of shape \<open>(ysize, xsize)\<close>
  for \<^verbatim>\<open>L\<close> and \<open>(ysize, xsize, bands)\<close> otherwise; \<^verbatim>\<open>Image.fromarray\<close> goes back and
  reads the mode off the shape, so an array of four bands is read as \<^verbatim>\<open>RGBA\<close>.
\<close>

datatype image =
    Image_L "u8 raster" "u8 option"
  | Image_LA "la raster"
  | Image_RGB "rgb raster" "rgb option"
  | Image_RGBA "rgba raster"
  | Image_RGBa "rgba raster"

datatype ndarray =
    Array_L "u8 raster"
  | Array_LA "la raster"
  | Array_RGB "rgb raster"
  | Array_RGBA "rgba raster"

datatype image_mode = L | LA | RGB | RGBA | RGBa

fun mode :: "image \<Rightarrow> image_mode" where
  "mode (Image_L g t) = L"
| "mode (Image_LA g) = LA"
| "mode (Image_RGB g t) = RGB"
| "mode (Image_RGBA g) = RGBA"
| "mode (Image_RGBa g) = RGBa"

fun size_of :: "image \<Rightarrow> nat \<times> nat" where
  "size_of (Image_L g t) = (xsize g, ysize g)"
| "size_of (Image_LA g) = (xsize g, ysize g)"
| "size_of (Image_RGB g t) = (xsize g, ysize g)"
| "size_of (Image_RGBA g) = (xsize g, ysize g)"
| "size_of (Image_RGBa g) = (xsize g, ysize g)"

fun wf_image :: "image \<Rightarrow> bool" where
  "wf_image (Image_L g t) = wf_raster g"
| "wf_image (Image_LA g) = wf_raster g"
| "wf_image (Image_RGB g t) = wf_raster g"
| "wf_image (Image_RGBA g) = wf_raster g"
| "wf_image (Image_RGBa g) = wf_raster g"

fun array_of :: "image \<Rightarrow> ndarray" where
  "array_of (Image_L g t) = Array_L g"
| "array_of (Image_LA g) = Array_LA g"
| "array_of (Image_RGB g t) = Array_RGB g"
| "array_of (Image_RGBA g) = Array_RGBA g"
| "array_of (Image_RGBa g) = Array_RGBA g"

fun fromarray :: "ndarray \<Rightarrow> image" where
  "fromarray (Array_L g) = Image_L g None"
| "fromarray (Array_LA g) = Image_LA g"
| "fromarray (Array_RGB g) = Image_RGB g None"
| "fromarray (Array_RGBA g) = Image_RGBA g"

fun array_size :: "ndarray \<Rightarrow> nat \<times> nat" where
  "array_size (Array_L g) = (xsize g, ysize g)"
| "array_size (Array_LA g) = (xsize g, ysize g)"
| "array_size (Array_RGB g) = (xsize g, ysize g)"
| "array_size (Array_RGBA g) = (xsize g, ysize g)"

section \<open>Exceptions\<close>

text \<open>
  An exception is its class name and its message (\<^verbatim>\<open>str(e)\<close>). \<open>Exception\<close> stands for
  the classes that derive from Python's \<^verbatim>\<open>Exception\<close>, which \<^verbatim>\<open>except Exception\<close> catches;
  \<open>BaseException\<close> for those that do not (\<^verbatim>\<open>KeyboardInterrupt\<close>, \<^verbatim>\<open>SystemExit\<close>, the
  hosting runtime's control exceptions). The messages of the exceptions the library
  models raise are indicative; no theorem depends on their wording.
\<close>

datatype error = Exception string string | BaseException string string

fun message :: "error \<Rightarrow> string" where
  "message (Exception cls msg) = msg"
| "message (BaseException cls msg) = msg"

section \<open>The library calls of \<^verbatim>\<open>remove_background\<close>\<close>

subsection \<open>\<^verbatim>\<open>Image.convert('RGBA')\<close>\<close>

text \<open>
  Pillow converts \<^verbatim>\<open>L\<close> and \<^verbatim>\<open>RGB\<close> by setting alpha to 255, and \<^verbatim>\<open>LA\<close> by keeping
  the alpha band. \<^verbatim>\<open>RGBa\<close> is converted by \<^verbatim>\<open>rgba2rgbA\<close>, which keeps the alpha band and
  undoes the premultiplication of the colour bands: a band \<open>c\<close> becomes
  \<^verbatim>\<open>CLIP8((255 * c) / alpha)\<close> unless alpha is 0 or 255. When the image carries \<^verbatim>\<open>info["transparency"]\<close> and the target has an
  alpha band, \<^verbatim>\<open>Image.convert\<close> takes the branch ``promote from transparent color to an
  alpha channel'': after the plain conversion, every pixel equal to the transparent
  colour at alpha 255 gets alpha 0 (\<^verbatim>\<open>rgbT2rgba\<close>).
\<close>

definition l2rgba :: "u8 \<Rightarrow> rgba" where
  "l2rgba v = (v, v, v, 255)"

definition la2rgba :: "la \<Rightarrow> rgba" where
  "la2rgba p = (case p of (v, a) \<Rightarrow> (v, v, v, a))"

definition rgb2rgba :: "rgb \<Rightarrow> rgba" where
  "rgb2rgba p = (case p of (r, g, b) \<Rightarrow> (r, g, b, 255))"

definition rgbT2rgba :: "rgb \<Rightarrow> rgba \<Rightarrow> rgba" where
  "rgbT2rgba t p = (case t of (r, g, b) \<Rightarrow> if p = (r, g, b, 255) then (r, g, b, 0) else p)"

definition CLIP8 :: "int \<Rightarrow> u8" where
  "CLIP8 v = (if v \<le> 0 then 0 else if v < 256 then word_of_int v else 255)"

definition rgba2rgbA :: "rgba \<Rightarrow> rgba" where
  "rgba2rgbA p =
     (case p of (r, g, b, a) \<Rightarrow>
        if a = 255 \<or> a = 0 then (r, g, b, a)
        else (CLIP8 ((255 * uint r) div uint a), CLIP8 ((255 * uint g) div uint a),
              CLIP8 ((255 * uint b) div uint a), a))"

fun convert_RGBA :: "image \<Rightarrow> rgba raster" where
  "convert_RGBA (Image_L g None) = map_raster l2rgba g"
| "convert_RGBA (Image_L g (Some t)) = map_raster (rgbT2rgba (t, t, t) \<circ> l2rgba) g"
| "convert_RGBA (Image_LA g) = map_raster la2rgba g"
| "convert_RGBA (Image_RGB g None) = map_raster rgb2rgba g"
| "convert_RGBA (Image_RGB g (Some t)) = map_raster (rgbT2rgba t \<circ> rgb2rgba) g"
| "convert_RGBA (Image_RGBA g) = g"
| "convert_RGBA (Image_RGBa g) = map_raster rgba2rgbA g"

subsection \<open>\<^verbatim>\<open>Image.new('RGBA', size, color)\<close>\<close>

text \<open>
  \<^verbatim>\<open>background_color\<close> is a tuple of three or four Python integers, as
  \<^verbatim>\<open>ImageColor.getrgb\<close> returns it. Pillow's \<^verbatim>\<open>getink\<close> parses the tuple with the format
  \<^verbatim>\<open>"Lii|i"\<close>, the first component into a C \<^verbatim>\<open>long long\<close> and the others into a C
  \<^verbatim>\<open>int\<close>, and raises \<^verbatim>\<open>OverflowError\<close> when one does not fit. It then clips each
  component to 0..255 and sets alpha to 255 when the tuple has three.
\<close>

datatype color = Color3 int int int | Color4 int int int int

definition fits_long_long :: "int \<Rightarrow> bool" where
  "fits_long_long v = (- (2 ^ 63) \<le> v \<and> v < 2 ^ 63)"

definition fits_int :: "int \<Rightarrow> bool" where
  "fits_int v = (- (2 ^ 31) \<le> v \<and> v < 2 ^ 31)"

fun getink :: "color \<Rightarrow> error + rgba" where
  "getink (Color3 r g b) =
     (if fits_long_long r \<and> fits_int g \<and> fits_int b
      then Inr (CLIP8 r, CLIP8 g, CLIP8 b, 255)
      else Inl (Exception ''OverflowError'' ''Python int too large to convert to C long''))"
| "getink (Color4 r g b a) =
     (if fits_long_long r \<and> fits_int g \<and> fits_int b \<and> fits_int a
      then Inr (CLIP8 r, CLIP8 g, CLIP8 b, CLIP8 a)
      else Inl (Exception ''OverflowError'' ''Python int too large to convert to C long''))"

definition fill :: "nat \<times> nat \<Rightarrow> rgba \<Rightarrow> rgba raster" where
  "fill sz ink = \<lparr>xsize = fst sz, ysize = snd sz, rows = replicate (snd sz) (replicate (fst sz) ink)\<rparr>"

subsection \<open>\<^verbatim>\<open>Image.paste(im, (0, 0), mask)\<close>\<close>

text \<open>
  Pasting through a mask blends every band of the destination, the alpha band too:
  \<^verbatim>\<open>*out = BLEND(*mask, *out, *in, tmp)\<close> with
  \<^verbatim>\<open>BLEND(mask, in1, in2, tmp) = DIV255(in1 * (255 - mask) + in2 * mask, tmp)\<close> and
  \<^verbatim>\<open>DIV255(a, tmp) = (tmp = a + 128, ((tmp >> 8) + tmp) >> 8)\<close>. A mask of mode \<^verbatim>\<open>RGBa\<close>
  is applied with \<^verbatim>\<open>PREBLEND(mask, in1, in2, tmp) = MULDIV255(in1, 255 - mask, tmp) + in2\<close>
  instead, the sum stored into a byte. The region is the source's size at the origin,
  clipped to the destination.
\<close>

definition DIV255 :: "nat \<Rightarrow> nat" where
  "DIV255 a = (let tmp = a + 128 in (tmp div 256 + tmp) div 256)"

definition BLEND :: "u8 \<Rightarrow> u8 \<Rightarrow> u8 \<Rightarrow> u8" where
  "BLEND m in1 in2 = of_nat (DIV255 (unat in1 * (255 - unat m) + unat in2 * unat m))"

definition MULDIV255 :: "nat \<Rightarrow> nat \<Rightarrow> nat" where
  "MULDIV255 a b = (let tmp = a * b + 128 in (tmp div 256 + tmp) div 256)"

definition PREBLEND :: "u8 \<Rightarrow> u8 \<Rightarrow> u8 \<Rightarrow> u8" where
  "PREBLEND m in1 in2 = of_nat (MULDIV255 (unat in1) (255 - unat m) + unat in2)"

datatype matte = Straight | Premultiplied

fun blend_band :: "matte \<Rightarrow> u8 \<Rightarrow> u8 \<Rightarrow> u8 \<Rightarrow> u8" where
  "blend_band Straight = BLEND"
| "blend_band Premultiplied = PREBLEND"

definition blend_pixel :: "matte \<Rightarrow> u8 \<Rightarrow> rgba \<Rightarrow> rgba \<Rightarrow> rgba" where
  "blend_pixel k m out inp =
     (case out of (r1, g1, b1, a1) \<Rightarrow> case inp of (r2, g2, b2, a2) \<Rightarrow>
        (blend_band k m r1 r2, blend_band k m g1 g2, blend_band k m b1 b2,
         blend_band k m a1 a2))"

definition paste_mask :: "matte \<Rightarrow> rgba raster \<Rightarrow> rgba raster \<Rightarrow> u8 raster \<Rightarrow> nat \<Rightarrow> nat \<Rightarrow> rgba raster" where
  "paste_mask k imOut imIn imMask xs ys =
     \<lparr>xsize = xsize imOut, ysize = ysize imOut,
      rows = map (\<lambda>y. map (\<lambda>x. if x < xs \<and> y < ys
                                then blend_pixel k (getpixel imMask x y) (getpixel imOut x y)
                                       (getpixel imIn x y)
                                else getpixel imOut x y)
                         [0..<xsize imOut])
                 [0..<ysize imOut]\<rparr>"

definition ImagingPaste :: "rgba raster \<Rightarrow> rgba raster \<Rightarrow> matte \<times> u8 raster \<Rightarrow> error + rgba raster" where
  "ImagingPaste imOut imIn imMask =
     (if xsize imIn \<noteq> xsize (snd imMask) \<or> ysize imIn \<noteq> ysize (snd imMask)
      then Inl (Exception ''ValueError'' ''images do not match'')
      else Inr (paste_mask (fst imMask) imOut imIn (snd imMask)
                  (min (xsize imIn) (xsize imOut)) (min (ysize imIn) (ysize imOut))))"

text \<open>
  The mask's band and the way it is applied: the image itself for mode \<^verbatim>\<open>L\<close>, the
  alpha band for \<^verbatim>\<open>LA\<close>, \<^verbatim>\<open>RGBA\<close> and \<^verbatim>\<open>RGBa\<close>; an \<^verbatim>\<open>RGB\<close> mask is refused.
\<close>

fun mask_band :: "image \<Rightarrow> error + matte \<times> u8 raster" where
  "mask_band (Image_L g t) = Inr (Straight, g)"
| "mask_band (Image_LA g) = Inr (Straight, map_raster snd g)"
| "mask_band (Image_RGBA g) = Inr (Straight, map_raster alpha g)"
| "mask_band (Image_RGBa g) = Inr (Premultiplied, map_raster alpha g)"
| "mask_band (Image_RGB g t) = Inl (Exception ''ValueError'' ''bad transparency mask'')"

section \<open>Objects and exceptions\<close>

text \<open>
  \<^verbatim>\<open>paste\<close> changes its destination in place, so Pillow images live in a store and the
  program holds references to them; a new image is appended to the store. Arrays are
  values: the program never writes to one, and \<^verbatim>\<open>np.array\<close> copies the samples out of
  the image. A call either returns a value or raises, and in both cases leaves a
  store behind. A reference outside the store stands for an argument that is not an
  image: reading an attribute of it raises \<^verbatim>\<open>AttributeError\<close>.
\<close>

type_synonym ref = nat
type_synonym store = "image list"
type_synonym 'a run = "store \<Rightarrow> (error + 'a) \<times> store"

definition succeed :: "'a \<Rightarrow> 'a run" where
  "succeed v h = (Inr v, h)"

definition raise :: "error \<Rightarrow> 'a run" where
  "raise e h = (Inl e, h)"

definition and_then :: "'a run \<Rightarrow> ('a \<Rightarrow> 'b run) \<Rightarrow> 'b run" where
  "and_then f k h = (case f h of (Inl e, h') \<Rightarrow> (Inl e, h') | (Inr v, h') \<Rightarrow> k v h')"

definition call :: "error + 'a \<Rightarrow> 'a run" where
  "call r h = (r, h)"

definition get_image :: "ref \<Rightarrow> image run" where
  "get_image r h =
     (if r < length h then succeed (h ! r) h
      else raise (Exception ''AttributeError'' ''not an image'') h)"

definition new_image :: "image \<Rightarrow> ref run" where
  "new_image im h = (Inr (length h), h @ [im])"

definition put_image :: "ref \<Rightarrow> image \<Rightarrow> unit run" where
  "put_image r im h = (Inr (), h[r := im])"

definition Image_convert_RGBA :: "ref \<Rightarrow> ref run" where
  "Image_convert_RGBA self =
     and_then (get_image self) (\<lambda>im. new_image (Image_RGBA (convert_RGBA im)))"

definition np_array :: "ref \<Rightarrow> ndarray run" where
  "np_array self = and_then (get_image self) (\<lambda>im. succeed (array_of im))"

definition Image_fromarray :: "ndarray \<Rightarrow> ref run" where
  "Image_fromarray arr = new_image (fromarray arr)"

definition Image_new_RGBA :: "nat \<times> nat \<Rightarrow> color \<Rightarrow> ref run" where
  "Image_new_RGBA sz c =
     and_then (call (getink c)) (\<lambda>ink. new_image (Image_RGBA (fill sz ink)))"

text \<open>
  \<^verbatim>\<open>self.paste(im, (0, 0), mask)\<close>: a source of another mode is converted to the
  destination's first. Only a destination of mode \<^verbatim>\<open>RGBA\<close> is modelled, the one
  \<^verbatim>\<open>Image.new('RGBA', ...)\<close> creates; the last equation is never reached from
  \<^verbatim>\<open>remove_background\<close>.
\<close>

fun paste_value :: "image \<Rightarrow> image \<Rightarrow> image \<Rightarrow> error + image" where
  "paste_value (Image_RGBA out) im msk =
     (case mask_band msk of
        Inl e \<Rightarrow> Inl e
      | Inr m \<Rightarrow> map_sum id Image_RGBA (ImagingPaste out (convert_RGBA im) m))"
| "paste_value out im msk = Inl (Exception ''NotImplementedError'' ''destination mode'')"

definition Image_paste :: "ref \<Rightarrow> ref \<Rightarrow> ref \<Rightarrow> unit run" where
  "Image_paste self im msk =
     and_then (get_image self) (\<lambda>out.
     and_then (get_image im) (\<lambda>src.
     and_then (get_image msk) (\<lambda>m.
     and_then (call (paste_value out src m)) (\<lambda>res.
     put_image self res))))"

text \<open>The attributes \<^verbatim>\<open>image.mode\<close> and \<^verbatim>\<open>image.size\<close>.\<close>

definition Image_mode :: "ref \<Rightarrow> image_mode run" where
  "Image_mode self = and_then (get_image self) (\<lambda>im. succeed (mode im))"

definition Image_size :: "ref \<Rightarrow> (nat \<times> nat) run" where
  "Image_size self = and_then (get_image self) (\<lambda>im. succeed (size_of im))"

section \<open>\<^verbatim>\<open>remove_background\<close>\<close>

text \<open>
  The segmentation model (\<^verbatim>\<open>rembg.remove\<close>) is a parameter: a function from the input
  array to the output array, or to the exception it raises.

  \<open>normalize\<close> is lines 19-20: \<^verbatim>\<open>input_image\<close> is rebound to a converted copy when the
  mode is not \<^verbatim>\<open>'RGBA'\<close>; otherwise the name keeps referring to the caller's object.
  \<^verbatim>\<open>if background_color:\<close> (line 29) is the truth value of the argument: \<^verbatim>\<open>None\<close> is
  false, a tuple of three or four numbers is true whatever the numbers are.
  Line 32 calls \<^verbatim>\<open>Image.fromarray(output_array)\<close> twice, for the source and for the mask.
\<close>

type_synonym segmenter = "ndarray \<Rightarrow> error + ndarray"

definition normalize :: "ref \<Rightarrow> ref run" where
  "normalize input_image =
     and_then (Image_mode input_image) (\<lambda>m.
       if m \<noteq> RGBA then Image_convert_RGBA input_image else succeed input_image)"

definition remove_background :: "segmenter \<Rightarrow> ref \<Rightarrow> color option \<Rightarrow> ref run" where
  "remove_background remove input_image background_color =
     and_then (normalize input_image) (\<lambda>input_image.
     and_then (np_array input_image) (\<lambda>input_array.
     and_then (call (remove input_array)) (\<lambda>output_array.
     and_then (case background_color of
                 None \<Rightarrow> succeed output_array
               | Some c \<Rightarrow>
                   and_then (Image_size input_image) (\<lambda>sz.
                   and_then (Image_new_RGBA sz c) (\<lambda>colored_background.
                   and_then (Image_fromarray output_array) (\<lambda>src.
                   and_then (Image_fromarray output_array) (\<lambda>msk.
                   and_then (Image_paste colored_background src msk) (\<lambda>u.
                   np_array colored_background)))))) (\<lambda>output_array.
     Image_fromarray output_array))))"

text \<open>
  What a call left behind, read by its caller: the exception, or the image the returned
  reference points to. \<open>rgba_ints\<close> reads a pixel as Python does, a tuple of integers.
\<close>

definition returned :: "(error + ref) \<times> store \<Rightarrow> error + image" where
  "returned res =
     (case res of
        (Inl e, h) \<Rightarrow> Inl e
      | (Inr r, h) \<Rightarrow> fst (get_image r h))"

definition rgba_ints :: "rgba \<Rightarrow> int \<times> int \<times> int \<times> int" where
  "rgba_ints p = (case p of (r, g, b, a) \<Rightarrow> (uint r, uint g, uint b, uint a))"

text \<open>
  Pillow's \<^verbatim>\<open>Image.has_transparency_data\<close>: the mode has an alpha band, or the image
  carries a transparent colour.
\<close>

fun has_transparency_data :: "image \<Rightarrow> bool" where
  "has_transparency_data (Image_L g t) = (t \<noteq> None)"
| "has_transparency_data (Image_LA g) = True"
| "has_transparency_data (Image_RGB g t) = (t \<noteq> None)"
| "has_transparency_data (Image_RGBA g) = True"
| "has_transparency_data (Image_RGBa g) = True"

text \<open>
  \<^verbatim>\<open>image.getchannel("A")\<close>: the alpha band of an image whose mode has one.
\<close>

fun getchannel_A :: "image \<Rightarrow> u8 list list option" where
  "getchannel_A (Image_L g t) = None"
| "getchannel_A (Image_LA g) = Some (map (map snd) (rows g))"
| "getchannel_A (Image_RGB g t) = None"
| "getchannel_A (Image_RGBA g) = Some (map (map alpha) (rows g))"
| "getchannel_A (Image_RGBa g) = Some (map (map alpha) (rows g))"

section \<open>The page script \<^verbatim>\<open>main\<close>\<close>

text \<open>
  Streamlit runs \<^verbatim>\<open>main\<close> from top to bottom on every interaction. The widgets'
  return values are the script's inputs: the uploaded file (its bytes, or \<^verbatim>\<open>None\<close>),
  the chosen radio label and the colour picker's string. What the script shows is the
  list of its display calls, in order. The decoder \<^verbatim>\<open>Image.open\<close>, the colour parser
  \<^verbatim>\<open>ImageColor.getrgb\<close>, the segmentation model and the PNG encoder
  (\<^verbatim>\<open>output_image.save(buffered, format="PNG")\<close>) are parameters, each returning a value
  or the exception it raises.

  \<^verbatim>\<open>Image.open\<close> is lazy: it identifies the file and reads the header, or raises; the
  pixel data are decoded at the image's first use, which is \<^verbatim>\<open>st.image(input_image)\<close> on
  line 79, and a truncated file raises there. So the decoder returns, for a file it
  identifies, the outcome of that later decoding. The display calls do not raise
  otherwise.

  \<^verbatim>\<open>except Exception as e\<close> (line 104) catches the exceptions of class \<^verbatim>\<open>Exception\<close>
  only. The script ends with \<open>Inr ()\<close> when it runs to its last line and with
  \<open>Inl e\<close> when the exception \<open>e\<close> leaves \<^verbatim>\<open>main\<close>.
\<close>

type_synonym bytes = "u8 list"
type_synonym lazy_image = "error + image"

datatype st_call =
    St_set_page_config
  | St_title
  | St_write
  | St_file_uploader
  | St_radio
  | St_color_picker
  | St_columns
  | St_subheader string
  | St_image image
  | St_download_button bytes string string
  | St_error string
  | St_sidebar_info

text \<open>Lines 64-68: the colour is parsed only for the option \<^verbatim>\<open>"Custom Color"\<close>.\<close>

definition chosen_color :: "(string \<Rightarrow> error + color) \<Rightarrow> string \<Rightarrow> string \<Rightarrow> error + color option" where
  "chosen_color getrgb background_option color_input =
     (if background_option = ''Custom Color''
      then (case getrgb color_input of Inl e \<Rightarrow> Inl e | Inr c \<Rightarrow> Inr (Some c))
      else Inr None)"

text \<open>
  Lines 83-102, the body of the \<^verbatim>\<open>try\<close> block: the display calls made before an
  exception stay on the page.
\<close>

definition try_body :: "segmenter \<Rightarrow> (image \<Rightarrow> error + bytes) \<Rightarrow> ref \<Rightarrow> color option \<Rightarrow> store \<Rightarrow> st_call list \<times> (error + unit)" where
  "try_body remove save_png input_image background_color h =
     (case remove_background remove input_image background_color h of
        (Inl e, h') \<Rightarrow> ([], Inl e)
      | (Inr output_image, h') \<Rightarrow>
          (case get_image output_image h' of
             (Inl e, h'') \<Rightarrow> ([], Inl e)
           | (Inr out, h'') \<Rightarrow>
               (case save_png out of
                  Inl e \<Rightarrow> ([St_subheader ''Processed Image'', St_image out], Inl e)
                | Inr img_byte \<Rightarrow>
                    ([St_subheader ''Processed Image'', St_image out,
                      St_download_button img_byte ''processed_image.png'' ''image/png''],
                     Inr ()))))"

definition main :: "(bytes \<Rightarrow> error + lazy_image) \<Rightarrow> (string \<Rightarrow> error + color) \<Rightarrow> segmenter \<Rightarrow> (image \<Rightarrow> error + bytes) \<Rightarrow> bytes option \<Rightarrow> string \<Rightarrow> string \<Rightarrow> st_call list \<times> (error + unit)" where
  "main Image_open getrgb remove save_png uploaded_file background_option color_input =
     (let page = [St_set_page_config, St_title, St_write, St_write, St_file_uploader, St_radio]
               @ (if background_option = ''Custom Color'' then [St_color_picker] else [])
      in case chosen_color getrgb background_option color_input of
           Inl e \<Rightarrow> (page, Inl e)
         | Inr background_color \<Rightarrow>
             (case uploaded_file of
                None \<Rightarrow> (page @ [St_sidebar_info], Inr ())
              | Some f \<Rightarrow>
                  (case Image_open f of
                     Inl e \<Rightarrow> (page, Inl e)
                   | Inr (Inl e) \<Rightarrow>
                       (page @ [St_columns, St_subheader ''Original Image''], Inl e)
                   | Inr (Inr input_image) \<Rightarrow>
                       (let shown = page @ [St_columns, St_subheader ''Original Image'',
                                           St_image input_image]
                        in case try_body remove save_png 0 background_color [input_image] of
                             (calls, Inl (Exception cls msg)) \<Rightarrow>
                               (shown @ calls
                                  @ [St_error (''An error occurred: '' @ msg),
                                     St_sidebar_info],
                                Inr ())
                           | (calls, Inl (BaseException cls msg)) \<Rightarrow>
                               (shown @ calls, Inl (BaseException cls msg))
                           | (calls, Inr u) \<Rightarrow> (shown @ calls @ [St_sidebar_info], Inr ())))))"

section \<open>Blending and pixel access\<close>

lemma DIV255_255: "c < 256 \<Longrightarrow> DIV255 (c * 255) = c"
  unfolding DIV255_def Let_def by arith

lemma unat_u8_less: "unat (w :: u8) < 256"
  using unsigned_less [of w, where ?'a = nat] by simp

lemma BLEND_0: "BLEND 0 in1 in2 = in1"
  by (simp add: BLEND_def DIV255_255 unat_u8_less)

lemma BLEND_255: "BLEND 255 in1 in2 = in2"
  by (simp add: BLEND_def DIV255_255 unat_u8_less)

lemma blend_pixel_0: "blend_pixel Straight 0 out inp = out"
  by (simp add: blend_pixel_def BLEND_0 split: prod.splits)

lemma blend_pixel_255: "blend_pixel Straight 255 out inp = inp"
  by (simp add: blend_pixel_def BLEND_255 split: prod.splits)

lemma wf_raster_row:
  assumes "wf_raster g" and "y < ysize g"
  shows "y < length (rows g) \<and> length (rows g ! y) = xsize g"
  using assms by (simp add: wf_raster_def list_all_length)

lemma getpixel_map_raster:
  assumes "wf_raster g" and "x < xsize g" and "y < ysize g"
  shows "getpixel (map_raster f g) x y = f (getpixel g x y)"
  using wf_raster_row [OF assms(1) assms(3)] assms(2)
  by (simp add: getpixel_def map_raster_def)

lemma wf_map_raster: "wf_raster g \<Longrightarrow> wf_raster (map_raster f g)"
  by (simp add: wf_raster_def map_raster_def list_all_iff)

lemma size_fill: "xsize (fill sz ink) = fst sz \<and> ysize (fill sz ink) = snd sz"
  by (simp add: fill_def)

lemma getpixel_fill:
  "x < fst sz \<Longrightarrow> y < snd sz \<Longrightarrow> getpixel (fill sz ink) x y = ink"
  by (simp add: getpixel_def fill_def)

lemma getpixel_paste_mask:
  assumes "x < xsize imOut" and "y < ysize imOut"
  shows "getpixel (paste_mask k imOut imIn imMask xs ys) x y =
           (if x < xs \<and> y < ys
            then blend_pixel k (getpixel imMask x y) (getpixel imOut x y) (getpixel imIn x y)
            else getpixel imOut x y)"
  using assms by (simp add: paste_mask_def getpixel_def)

lemma size_paste_mask:
  "xsize (paste_mask k imOut imIn imMask xs ys) = xsize imOut \<and>
   ysize (paste_mask k imOut imIn imMask xs ys) = ysize imOut"
  by (simp add: paste_mask_def)

lemma paste_value_RGBA:
  "paste_value (Image_RGBA out) (Image_RGBA seg) (Image_RGBA seg) =
     Inr (Image_RGBA (paste_mask Straight out seg (map_raster alpha seg)
            (min (xsize seg) (xsize out)) (min (ysize seg) (ysize out))))"
  by (simp add: ImagingPaste_def map_raster_def)

lemma paste_value_size:
  "paste_value (Image_RGBA out) im msk = Inr res \<Longrightarrow> size_of res = (xsize out, ysize out)"
  by (auto simp: ImagingPaste_def size_paste_mask split: sum.splits if_splits)

lemma paste_value_mode:
  "paste_value out im msk = Inr res \<Longrightarrow> fromarray (array_of res) = res"
  by (cases out) (auto simp: ImagingPaste_def split: sum.splits if_splits)

lemma array_of_fromarray: "array_of (fromarray arr) = arr"
  by (cases arr) simp_all

lemma size_of_fromarray: "size_of (fromarray arr) = array_size arr"
  by (cases arr) simp_all

lemma uint_CLIP8: "0 \<le> v \<Longrightarrow> v \<le> 255 \<Longrightarrow> uint (CLIP8 v) = v"
  by (simp add: CLIP8_def uint_word_of_int)

lemma CLIP8_255: "CLIP8 255 = 255"
  by (simp add: CLIP8_def)

lemma fits_byte: "0 \<le> v \<Longrightarrow> v \<le> 255 \<Longrightarrow> fits_long_long v \<and> fits_int v"
  by (simp add: fits_long_long_def fits_int_def)

lemma getink_solid:
  assumes "c = Color3 r g b \<or> c = Color4 r g b 255"
    and "0 \<le> r \<and> r \<le> 255" and "0 \<le> g \<and> g \<le> 255" and "0 \<le> b \<and> b \<le> 255"
  shows "getink c = Inr (CLIP8 r, CLIP8 g, CLIP8 b, 255)"
  using assms fits_byte [of r] fits_byte [of g] fits_byte [of b] fits_byte [of 255]
  by (auto simp: CLIP8_255)

section \<open>Conversion to \<^verbatim>\<open>RGBA\<close>\<close>

lemma size_of_convert:
  "xsize (convert_RGBA im) = fst (size_of im) \<and> ysize (convert_RGBA im) = snd (size_of im)"
  by (cases im rule: convert_RGBA.cases) (simp_all add: map_raster_def)

lemma wf_convert_RGBA: "wf_image im \<Longrightarrow> wf_raster (convert_RGBA im)"
  by (cases im rule: convert_RGBA.cases) (simp_all add: wf_map_raster)

lemma opaque_map_raster:
  "(\<And>p. alpha (f p) = 255) \<Longrightarrow> list_all (list_all (\<lambda>p. alpha p = 255)) (rows (map_raster f g))"
  by (simp add: map_raster_def list_all_iff)

lemma alpha_l2rgba: "alpha (l2rgba v) = 255"
  by (simp add: alpha_def l2rgba_def)

lemma alpha_rgb2rgba: "alpha (rgb2rgba p) = 255"
  by (simp add: alpha_def rgb2rgba_def split: prod.splits)

lemma alpha_la2rgba: "alpha (la2rgba p) = snd p"
  by (simp add: alpha_def la2rgba_def split: prod.splits)

lemma alpha_rgba2rgbA: "alpha (rgba2rgbA p) = alpha p"
  by (simp add: alpha_def rgba2rgbA_def split: prod.splits)

lemma convert_RGBA_opaque:
  "\<not> has_transparency_data im \<Longrightarrow> list_all (list_all (\<lambda>p. alpha p = 255)) (rows (convert_RGBA im))"
  by (cases im rule: convert_RGBA.cases)
     (simp_all add: opaque_map_raster alpha_l2rgba alpha_rgb2rgba)

text \<open>The conversion keeps the alpha band of every image that has one.\<close>

lemma convert_RGBA_keeps_alpha:
  "getchannel_A im = Some band \<Longrightarrow> map (map alpha) (rows (convert_RGBA im)) = band"
  by (cases im rule: convert_RGBA.cases)
     (auto simp: map_raster_def alpha_la2rgba alpha_rgba2rgbA comp_def)

lemma opaque_by_band:
  "list_all (list_all (\<lambda>p. alpha p = 255)) rs
     = list_all (list_all (\<lambda>a. a = 255)) (map (map alpha) rs)"
  by (simp add: list_all_iff)

section \<open>What a call of \<^verbatim>\<open>remove_background\<close> does\<close>

lemma get_image_eq: "r < length h \<Longrightarrow> get_image r h = (Inr (h ! r), h)"
  by (simp add: get_image_def succeed_def)

lemma normalize_eq:
  "input_image < length h \<Longrightarrow>
   normalize input_image h =
     (if mode (h ! input_image) \<noteq> RGBA
      then (Inr (length h), h @ [Image_RGBA (convert_RGBA (h ! input_image))])
      else (Inr input_image, h))"
  by (simp add: normalize_def Image_mode_def and_then_def get_image_eq Image_convert_RGBA_def
      new_image_def succeed_def)

lemma normalize_result:
  assumes "input_image < length h"
  shows "\<exists>r' h'. normalize input_image h = (Inr r', h') \<and> r' < length h'
           \<and> h' ! r' = Image_RGBA (convert_RGBA (h ! input_image))"
proof (cases "h ! input_image")
  case (Image_RGBA g)
  with assms show ?thesis by (simp add: normalize_eq)
qed (use assms in \<open>simp_all add: normalize_eq\<close>)

lemma np_array_eq:
  "r < length h \<Longrightarrow> np_array r h = (Inr (array_of (h ! r)), h)"
  by (simp add: np_array_def and_then_def get_image_eq succeed_def)

text \<open>
  The steps after normalization, run on a store whose reference \<open>r\<close> holds the
  normalized image \<open>Image_RGBA g\<close>.
\<close>

lemma recolor_eq:
  assumes "r < length h" and "h ! r = Image_RGBA g"
  shows "and_then (Image_size r) (\<lambda>sz.
         and_then (Image_new_RGBA sz c) (\<lambda>colored_background.
         and_then (Image_fromarray arr) (\<lambda>src.
         and_then (Image_fromarray arr) (\<lambda>msk.
         and_then (Image_paste colored_background src msk) (\<lambda>u.
         np_array colored_background))))) h =
    (case getink c of
       Inl e \<Rightarrow> (Inl e, h)
     | Inr ink \<Rightarrow>
        (let canvas = Image_RGBA (fill (xsize g, ysize g) ink) in
         case paste_value canvas (fromarray arr) (fromarray arr) of
           Inl e \<Rightarrow> (Inl e, h @ [canvas, fromarray arr, fromarray arr])
         | Inr res \<Rightarrow> (Inr (array_of res), h @ [res, fromarray arr, fromarray arr])))"
  using assms
  by (simp add: Image_size_def and_then_def get_image_eq Image_new_RGBA_def new_image_def
      Image_fromarray_def Image_paste_def call_def put_image_def np_array_def succeed_def
      nth_append Let_def split: sum.splits)

lemma remove_background_eq:
  assumes "input_image < length h"
  shows "remove_background remove input_image background_color h =
    (let im = h ! input_image;
         h1 = (if mode im \<noteq> RGBA then h @ [Image_RGBA (convert_RGBA im)] else h)
     in case remove (Array_RGBA (convert_RGBA im)) of
          Inl e \<Rightarrow> (Inl e, h1)
        | Inr arr \<Rightarrow>
           (case background_color of
              None \<Rightarrow> (Inr (length h1), h1 @ [fromarray arr])
            | Some c \<Rightarrow>
               (case getink c of
                  Inl e \<Rightarrow> (Inl e, h1)
                | Inr ink \<Rightarrow>
                   (let canvas = Image_RGBA (fill (size_of im) ink) in
                    case paste_value canvas (fromarray arr) (fromarray arr) of
                      Inl e \<Rightarrow> (Inl e, h1 @ [canvas, fromarray arr, fromarray arr])
                    | Inr res \<Rightarrow>
                        (Inr (length h1 + 3),
                         h1 @ [res, fromarray arr, fromarray arr, fromarray (array_of res)])))))"
proof -
  from normalize_result [OF assms] obtain r' h' where
    n: "normalize input_image h = (Inr r', h')" and r': "r' < length h'"
    and im: "h' ! r' = Image_RGBA (convert_RGBA (h ! input_image))"
    by blast
  have h': "h' = (if mode (h ! input_image) \<noteq> RGBA
                  then h @ [Image_RGBA (convert_RGBA (h ! input_image))] else h)"
    using n assms by (simp add: normalize_eq split: if_splits)
  have sz: "(xsize (convert_RGBA (h ! input_image)), ysize (convert_RGBA (h ! input_image)))
              = size_of (h ! input_image)"
    using size_of_convert [of "h ! input_image"] by (simp add: prod_eq_iff)
  have "remove_background remove input_image background_color h =
    (case remove (Array_RGBA (convert_RGBA (h ! input_image))) of
          Inl e \<Rightarrow> (Inl e, h')
        | Inr arr \<Rightarrow>
           (case background_color of
              None \<Rightarrow> (Inr (length h'), h' @ [fromarray arr])
            | Some c \<Rightarrow>
               (case getink c of
                  Inl e \<Rightarrow> (Inl e, h')
                | Inr ink \<Rightarrow>
                   (let canvas = Image_RGBA (fill (size_of (h ! input_image)) ink) in
                    case paste_value canvas (fromarray arr) (fromarray arr) of
                      Inl e \<Rightarrow> (Inl e, h' @ [canvas, fromarray arr, fromarray arr])
                    | Inr res \<Rightarrow>
                        (Inr (length h' + 3),
                         h' @ [res, fromarray arr, fromarray arr, fromarray (array_of res)])))))"
    unfolding remove_background_def
    using n r' im sz recolor_eq [OF r' im]
    by (simp add: and_then_def np_array_eq call_def succeed_def Image_fromarray_def
        new_image_def Let_def split: sum.splits option.splits)
  then show ?thesis
    unfolding Let_def h' by simp
qed

lemma remove_background_bad_ref:
  "\<not> input_image < length h \<Longrightarrow>
   remove_background remove input_image background_color h =
     (Inl (Exception ''AttributeError'' ''not an image''), h)"
  by (simp add: remove_background_def normalize_def Image_mode_def and_then_def
      get_image_def raise_def)

lemma remove_background_ref:
  assumes "remove_background remove input_image background_color h = (Inr r, h')"
  shows "r < length h'"
proof (cases "input_image < length h")
  case False
  from remove_background_bad_ref [OF False, of remove background_color] assms
  show ?thesis by simp
next
  case True
  from remove_background_eq [OF True, of remove background_color] assms
  show ?thesis
    by (auto simp: Let_def split: sum.splits option.splits if_splits)
qed

lemma remove_background_oracle_at:
  assumes "input_image < length h"
    and "f (Array_RGBA (convert_RGBA (h ! input_image))) = remove (Array_RGBA (convert_RGBA (h ! input_image)))"
  shows "remove_background f input_image background_color h =
         remove_background remove input_image background_color h"
  using assms by (simp add: remove_background_eq)

text \<open>
  The image a call returns: with no colour the array of the segmentation model, read
  back as an image; with a colour the canvas after the paste.
\<close>

lemma returned_Inl:
  assumes "input_image < length h"
    and "remove (Array_RGBA (convert_RGBA (h ! input_image))) = Inl e"
  shows "returned (remove_background remove input_image background_color h) = Inl e"
  using assms by (simp add: remove_background_eq returned_def Let_def)

lemma returned_None:
  assumes "input_image < length h"
    and "remove (Array_RGBA (convert_RGBA (h ! input_image))) = Inr arr"
  shows "returned (remove_background remove input_image None h) = Inr (fromarray arr)"
  using assms by (simp add: remove_background_eq returned_def get_image_eq Let_def)

lemma returned_bad_color:
  assumes "input_image < length h"
    and "remove (Array_RGBA (convert_RGBA (h ! input_image))) = Inr arr"
    and "getink c = Inl e"
  shows "returned (remove_background remove input_image (Some c) h) = Inl e"
  using assms by (simp add: remove_background_eq returned_def Let_def)

lemma returned_Some:
  assumes "input_image < length h"
    and "remove (Array_RGBA (convert_RGBA (h ! input_image))) = Inr arr"
    and "getink c = Inr ink"
  shows "returned (remove_background remove input_image (Some c) h) =
           paste_value (Image_RGBA (fill (size_of (h ! input_image)) ink))
             (fromarray arr) (fromarray arr)"
proof (cases "paste_value (Image_RGBA (fill (size_of (h ! input_image)) ink))
                (fromarray arr) (fromarray arr)")
  case (Inl e)
  with assms show ?thesis
    by (simp add: remove_background_eq returned_def Let_def del: paste_value.simps)
next
  case (Inr res)
  with assms paste_value_mode [OF Inr] show ?thesis
    by (simp add: remove_background_eq returned_def get_image_eq Let_def nth_append
        del: paste_value.simps)
qed

lemma returned_size_Some:
  assumes "input_image < length h"
    and "returned (remove_background remove input_image (Some c) h) = Inr out"
  shows "size_of out = size_of (h ! input_image)"
proof (cases "remove (Array_RGBA (convert_RGBA (h ! input_image)))")
  case (Inl e)
  with assms show ?thesis
    using returned_Inl [of input_image h remove e "Some c"] by simp
next
  case arr: (Inr arr)
  show ?thesis
  proof (cases "getink c")
    case (Inl e)
    with assms arr show ?thesis
      using returned_bad_color [of input_image h remove arr c e] by simp
  next
    case (Inr ink)
    with assms arr have "paste_value (Image_RGBA (fill (size_of (h ! input_image)) ink))
               (fromarray arr) (fromarray arr) = Inr out"
      using returned_Some [of input_image h remove arr c ink] by simp
    from paste_value_size [OF this] show ?thesis
      by (simp add: size_fill)
  qed
qed

text \<open>
  With a colour, the pixel at a location of the canvas is the ink, blended with the
  segmented pixel through the segmented alpha where the segmented image covers it.
\<close>

lemma returned_pixel:
  assumes "input_image < length h"
    and "remove (Array_RGBA (convert_RGBA (h ! input_image))) = Inr (Array_RGBA seg)"
    and "getink c = Inr ink"
    and "x < fst (size_of (h ! input_image))" and "y < snd (size_of (h ! input_image))"
  shows "\<exists>out. returned (remove_background remove input_image (Some c) h) = Inr (Image_RGBA out)
           \<and> xsize out = fst (size_of (h ! input_image))
           \<and> ysize out = snd (size_of (h ! input_image))
           \<and> getpixel out x y =
               (if x < xsize seg \<and> y < ysize seg
                then blend_pixel Straight (getpixel (map_raster alpha seg) x y) ink
                       (getpixel seg x y)
                else ink)"
  using assms
  by (simp add: returned_Some paste_value_RGBA getpixel_paste_mask size_paste_mask
      getpixel_fill size_fill del: paste_value.simps)

section \<open>The claims about \<^verbatim>\<open>remove_background\<close>\<close>

text \<open>
  C1. For a solid colour \<open>C = (r, g, b)\<close> (three components in 0..255, or four with
  alpha 255), every location that is fully transparent (alpha 0) in the segmented array
  holds exactly \<open>(r, g, b, 255)\<close> in the image \<^verbatim>\<open>remove_background\<close> returns, and the
  call does return an image. The segmented array is the one the segmentation model
  returns for the normalized input; the location lies in the input's size, where the
  output has pixels.
\<close>

theorem transparent_pixels_take_the_color:
  fixes r g b :: int
  assumes "input_image < length h"
    and "remove (Array_RGBA (convert_RGBA (h ! input_image))) = Inr (Array_RGBA seg)"
    and "wf_raster seg"
    and "x < xsize seg" and "y < ysize seg"
    and "alpha (getpixel seg x y) = 0"
    and "x < fst (size_of (h ! input_image))" and "y < snd (size_of (h ! input_image))"
    and "c = Color3 r g b \<or> c = Color4 r g b 255"
    and "0 \<le> r \<and> r \<le> 255" and "0 \<le> g \<and> g \<le> 255" and "0 \<le> b \<and> b \<le> 255"
  shows "\<exists>out. returned (remove_background remove input_image (Some c) h) = Inr (Image_RGBA out)
           \<and> rgba_ints (getpixel out x y) = (r, g, b, 255)"
proof -
  let ?ink = "(CLIP8 r, CLIP8 g, CLIP8 b, 255 :: u8)"
  have ink: "getink c = Inr ?ink"
    using getink_solid [OF assms(9-12)] .
  from returned_pixel [of input_image h remove seg c ?ink x y] assms(1,2,7,8) ink obtain out where
    out: "returned (remove_background remove input_image (Some c) h) = Inr (Image_RGBA out)"
    and px: "getpixel out x y =
               blend_pixel Straight (getpixel (map_raster alpha seg) x y) ?ink (getpixel seg x y)"
    using assms(4,5) by auto
  have "getpixel (map_raster alpha seg) x y = 0"
    using getpixel_map_raster [OF assms(3,4,5), of alpha] assms(6) by simp
  with px have "getpixel out x y = ?ink"
    by (simp add: blend_pixel_0)
  moreover have "rgba_ints ?ink = (r, g, b, 255)"
    using assms(10-12) by (simp add: rgba_ints_def uint_CLIP8)
  ultimately show ?thesis
    using out by auto
qed

theorem transparent_pixels_take_the_color_witness:
  "\<exists>out. returned (remove_background
             (\<lambda>a. Inr (Array_RGBA \<lparr>xsize = 2, ysize = 1, rows = [[(10, 20, 30, 255), (40, 50, 60, 0)]]\<rparr>))
             0 (Some (Color3 0 255 0))
             [Image_RGB \<lparr>xsize = 2, ysize = 1, rows = [[(10, 20, 30), (40, 50, 60)]]\<rparr> None])
          = Inr (Image_RGBA out)
        \<and> rgba_ints (getpixel out 1 0) = (0, 255, 0, 255)"
  using transparent_pixels_take_the_color
    [of 0 "[Image_RGB \<lparr>xsize = 2, ysize = 1, rows = [[(10, 20, 30), (40, 50, 60)]]\<rparr> None]"
        "\<lambda>a. Inr (Array_RGBA \<lparr>xsize = 2, ysize = 1, rows = [[(10, 20, 30, 255), (40, 50, 60, 0)]]\<rparr>)"
        "\<lparr>xsize = 2, ysize = 1, rows = [[(10, 20, 30, 255), (40, 50, 60, 0)]]\<rparr>"
        1 0 "Color3 0 255 0" 0 255 0]
  by (simp add: wf_raster_def getpixel_def alpha_def)

text \<open>
  Where the segmented alpha is 0 or 255, or the segmented image does not cover the
  location, the paste onto an opaque canvas leaves an opaque pixel.
\<close>

lemma binary_alpha_pixels_are_opaque:
  assumes "input_image < length h"
    and "remove (Array_RGBA (convert_RGBA (h ! input_image))) = Inr (Array_RGBA seg)"
    and "wf_raster seg"
    and "getink c = Inr ink" and "alpha ink = 255"
    and "x < fst (size_of (h ! input_image))" and "y < snd (size_of (h ! input_image))"
    and "x < xsize seg \<and> y < ysize seg \<longrightarrow>
           alpha (getpixel seg x y) = 0 \<or> alpha (getpixel seg x y) = 255"
  shows "\<exists>out. returned (remove_background remove input_image (Some c) h) = Inr (Image_RGBA out)
            \<and> alpha (getpixel out x y) = 255"
proof -
  from returned_pixel [of input_image h remove seg c ink x y] assms(1,2,4,6,7) obtain out where
    out: "returned (remove_background remove input_image (Some c) h) = Inr (Image_RGBA out)"
    and px: "getpixel out x y =
               (if x < xsize seg \<and> y < ysize seg
                then blend_pixel Straight (getpixel (map_raster alpha seg) x y) ink
                       (getpixel seg x y)
                else ink)"
    by auto
  have "alpha (getpixel out x y) = 255"
  proof (cases "x < xsize seg \<and> y < ysize seg")
    case False
    with px assms(5) show ?thesis by simp
  next
    case True
    then have m: "getpixel (map_raster alpha seg) x y = alpha (getpixel seg x y)"
      using getpixel_map_raster [OF assms(3), of x y alpha] by simp
    from True assms(8) consider "alpha (getpixel seg x y) = 0" | "alpha (getpixel seg x y) = 255"
      by blast
    then show ?thesis
    proof cases
      case 1
      with px True m assms(5) show ?thesis by (simp add: blend_pixel_0)
    next
      case 2
      with px True m show ?thesis by (simp add: blend_pixel_255)
    qed
  qed
  with out show ?thesis
    by blast
qed

text \<open>
  The paste blends the canvas's alpha band through the mask as it blends the colour
  bands: canvas alpha 255 under a segmented alpha \<open>a\<close> gives \<open>BLEND a 255 a\<close>, which is
  below 255 for every \<open>a\<close> strictly between 0 and 255.
\<close>

lemma BLEND_soft_edge:
  assumes "0 < unat a" and "unat a < 255"
  shows "BLEND a 255 a \<noteq> 255"
proof -
  define n where "n = unat a"
  define v where "v = 255 * (255 - n) + n * n"
  have n: "0 < n" "n < 255"
    using assms by (simp_all add: n_def)
  have "0 \<le> (int n - 1) * (254 - int n)"
    using n by (intro mult_nonneg_nonneg) simp_all
  then have sq: "int n * int n \<le> 255 * int n - 254"
    by (simp add: algebra_simps)
  have "int v = 255 * (255 - int n) + int n * int n"
    using n by (simp add: v_def of_nat_diff)
  also have "\<dots> \<le> 64771"
    using sq by simp
  finally have "v \<le> 64771"
    by simp
  then have "DIV255 v < 255"
    unfolding DIV255_def Let_def by arith
  then have "unat (BLEND a 255 a) < 255"
    by (simp add: BLEND_def n_def v_def unat_of_nat)
  then show ?thesis
    by auto
qed

lemma soft_edges_stay_translucent:
  assumes "input_image < length h"
    and "remove (Array_RGBA (convert_RGBA (h ! input_image))) = Inr (Array_RGBA seg)"
    and "wf_raster seg"
    and "getink c = Inr ink" and "alpha ink = 255"
    and "x < fst (size_of (h ! input_image))" and "y < snd (size_of (h ! input_image))"
    and "x < xsize seg" and "y < ysize seg"
    and "0 < unat (alpha (getpixel seg x y))" and "unat (alpha (getpixel seg x y)) < 255"
  shows "\<exists>out. returned (remove_background remove input_image (Some c) h) = Inr (Image_RGBA out)
            \<and> alpha (getpixel out x y) \<noteq> 255"
proof -
  from returned_pixel [of input_image h remove seg c ink x y] assms(1,2,4,6,7,8,9) obtain out where
    out: "returned (remove_background remove input_image (Some c) h) = Inr (Image_RGBA out)"
    and px: "getpixel out x y =
               blend_pixel Straight (getpixel (map_raster alpha seg) x y) ink (getpixel seg x y)"
    by auto
  have m: "getpixel (map_raster alpha seg) x y = alpha (getpixel seg x y)"
    using getpixel_map_raster [OF assms(3,8,9), of alpha] .
  have "alpha (getpixel out x y) =
          BLEND (alpha (getpixel seg x y)) (alpha ink) (alpha (getpixel seg x y))"
    unfolding px m by (simp add: blend_pixel_def alpha_def split: prod.splits)
  with assms(5) BLEND_soft_edge [OF assms(10,11)] have "alpha (getpixel out x y) \<noteq> 255"
    by simp
  with out show ?thesis
    by blast
qed

text \<open>
  C3 does not hold of the code. With the colour \<open>(0, 255, 0)\<close> requested, a pixel that
  the segmentation returns as \<open>(200, 100, 50, 128)\<close> is \<open>(100, 177, 25, 191)\<close> in the
  returned image: its alpha is 191, not 255. Line 32 pastes the cutout through its own
  alpha onto a canvas of mode \<^verbatim>\<open>RGBA\<close>, and the paste blends the canvas's alpha band too.
\<close>

theorem soft_edge_pixel_is_not_opaque:
  "returned (remove_background
      (\<lambda>a. Inr (Array_RGBA \<lparr>xsize = 1, ysize = 1, rows = [[(200, 100, 50, 128)]]\<rparr>))
      0 (Some (Color3 0 255 0))
      [Image_RGB \<lparr>xsize = 1, ysize = 1, rows = [[(200, 100, 50)]]\<rparr> None])
    = Inr (Image_RGBA \<lparr>xsize = 1, ysize = 1, rows = [[(100, 177, 25, 191)]]\<rparr>)
   \<and> alpha (getpixel \<lparr>xsize = 1, ysize = 1, rows = [[(100, 177, 25, 191)]]\<rparr> 0 0) \<noteq> 255"
proof -
  have ink: "getink (Color3 0 255 0) = Inr (0, 255, 0, 255)"
    by (simp add: fits_long_long_def fits_int_def CLIP8_def)
  show ?thesis
    by (simp add: returned_Some [OF _ _ ink] ImagingPaste_def map_raster_def paste_mask_def
        fill_def getpixel_def blend_pixel_def alpha_def BLEND_def DIV255_def)
qed

text \<open>
  C4. The image \<^verbatim>\<open>remove_background\<close> returns has the width and height of the input
  image, with or without a colour. The segmentation model is external; its contract,
  an output array of the input array's dimensions, is the second hypothesis.
\<close>

theorem output_size_is_input_size:
  assumes "input_image < length h"
    and "\<And>arr. remove (Array_RGBA (convert_RGBA (h ! input_image))) = Inr arr
            \<Longrightarrow> array_size arr = size_of (h ! input_image)"
    and "returned (remove_background remove input_image background_color h) = Inr out"
  shows "size_of out = size_of (h ! input_image)"
proof (cases background_color)
  case (Some c)
  with assms(1,3) show ?thesis
    using returned_size_Some [of input_image h remove c out] by simp
next
  case None
  show ?thesis
  proof (cases "remove (Array_RGBA (convert_RGBA (h ! input_image)))")
    case (Inl e)
    with assms(1,3) show ?thesis
      using returned_Inl [of input_image h remove e background_color] by simp
  next
    case (Inr arr)
    with assms(1,3) None have "out = fromarray arr"
      using returned_None [of input_image h remove arr] by simp
    then have "size_of out = array_size arr"
      by (simp only: size_of_fromarray)
    with assms(2) [OF Inr] show ?thesis
      by simp
  qed
qed

theorem output_size_is_input_size_witness:
  "size_of (Image_RGBA \<lparr>xsize = 1, ysize = 1, rows = [[(0, 255, 0, 255)]]\<rparr>)
     = size_of (Image_RGB \<lparr>xsize = 1, ysize = 1, rows = [[(40, 50, 60)]]\<rparr> None)
   \<and> returned (remove_background
         (\<lambda>a. Inr (Array_RGBA \<lparr>xsize = 1, ysize = 1, rows = [[(40, 50, 60, 0)]]\<rparr>))
         0 (Some (Color3 0 255 0))
         [Image_RGB \<lparr>xsize = 1, ysize = 1, rows = [[(40, 50, 60)]]\<rparr> None])
       = Inr (Image_RGBA \<lparr>xsize = 1, ysize = 1, rows = [[(0, 255, 0, 255)]]\<rparr>)"
proof -
  have ink: "getink (Color3 0 255 0) = Inr (0, 255, 0, 255)"
    by (simp add: fits_long_long_def fits_int_def CLIP8_def)
  have run: "returned (remove_background
         (\<lambda>a. Inr (Array_RGBA \<lparr>xsize = 1, ysize = 1, rows = [[(40, 50, 60, 0)]]\<rparr>))
         0 (Some (Color3 0 255 0))
         [Image_RGB \<lparr>xsize = 1, ysize = 1, rows = [[(40, 50, 60)]]\<rparr> None])
       = Inr (Image_RGBA \<lparr>xsize = 1, ysize = 1, rows = [[(0, 255, 0, 255)]]\<rparr>)"
    by (simp add: returned_Some [OF _ _ ink] ImagingPaste_def map_raster_def paste_mask_def
      fill_def getpixel_def blend_pixel_def alpha_def BLEND_def DIV255_def)
  from output_size_is_input_size
    [of 0 "[Image_RGB \<lparr>xsize = 1, ysize = 1, rows = [[(40, 50, 60)]]\<rparr> None]"
        "\<lambda>a. Inr (Array_RGBA \<lparr>xsize = 1, ysize = 1, rows = [[(40, 50, 60, 0)]]\<rparr>)"
        "Some (Color3 0 255 0)", OF _ _ run]
  show ?thesis using run by auto
qed

text \<open>
  C5, as stated, fails for an input that has no alpha band but carries a transparent
  colour: the conversion gives alpha 0 to the pixels of that colour.
\<close>

theorem transparent_color_counterexample:
  "mode (Image_RGB \<lparr>xsize = 2, ysize = 1, rows = [[(0, 255, 52), (9, 9, 9)]]\<rparr> (Some (0, 255, 52))) = RGB
   \<and> normalize 0 [Image_RGB \<lparr>xsize = 2, ysize = 1, rows = [[(0, 255, 52), (9, 9, 9)]]\<rparr> (Some (0, 255, 52))]
     = (Inr 1, [Image_RGB \<lparr>xsize = 2, ysize = 1, rows = [[(0, 255, 52), (9, 9, 9)]]\<rparr> (Some (0, 255, 52)),
                Image_RGBA \<lparr>xsize = 2, ysize = 1, rows = [[(0, 255, 52, 0), (9, 9, 9, 255)]]\<rparr>])
   \<and> alpha (getpixel \<lparr>xsize = 2, ysize = 1, rows = [[(0, 255, 52, 0), (9, 9, 9, 255)]]\<rparr> 0 0) \<noteq> 255"
  by (simp add: normalize_eq map_raster_def rgb2rgba_def rgbT2rgba_def alpha_def getpixel_def)

text \<open>
  C5, amended. After normalization the image is of mode \<^verbatim>\<open>RGBA\<close>, so it has an alpha
  band, and it has the input's size; its array is what the segmentation model is
  called with (the call's outcome depends on the model at this array only). For an
  input without transparency data, that is with no alpha band and no transparent
  colour, the alpha band is 255 at every pixel.
\<close>

theorem normalized_input_alpha:
  assumes "input_image < length h"
  shows "\<exists>r' h' g. normalize input_image h = (Inr r', h')
           \<and> r' < length h' \<and> h' ! r' = Image_RGBA g
           \<and> np_array r' h' = (Inr (Array_RGBA g), h')
           \<and> (\<forall>f. f (Array_RGBA g) = remove (Array_RGBA g) \<longrightarrow>
                  remove_background f input_image background_color h =
                  remove_background remove input_image background_color h)
           \<and> size_of (Image_RGBA g) = size_of (h ! input_image)
           \<and> (wf_image (h ! input_image) \<longrightarrow> wf_raster g)
           \<and> (\<not> has_transparency_data (h ! input_image) \<longrightarrow>
                  list_all (list_all (\<lambda>p. alpha p = 255)) (rows g))"
proof -
  let ?g = "convert_RGBA (h ! input_image)"
  from normalize_result [OF assms] obtain r' h' where
    n: "normalize input_image h = (Inr r', h')" and r': "r' < length h'"
    and im: "h' ! r' = Image_RGBA ?g"
    by blast
  have a: "np_array r' h' = (Inr (Array_RGBA ?g), h')"
    using np_array_eq [OF r'] im by simp
  have o: "\<forall>f. f (Array_RGBA ?g) = remove (Array_RGBA ?g) \<longrightarrow>
                  remove_background f input_image background_color h =
                  remove_background remove input_image background_color h"
    using remove_background_oracle_at [OF assms] by blast
  have s: "size_of (Image_RGBA ?g) = size_of (h ! input_image)"
    using size_of_convert [of "h ! input_image"] by (simp add: prod_eq_iff)
  have w: "wf_image (h ! input_image) \<longrightarrow> wf_raster ?g"
    using wf_convert_RGBA by blast
  have t: "\<not> has_transparency_data (h ! input_image) \<longrightarrow>
                  list_all (list_all (\<lambda>p. alpha p = 255)) (rows ?g)"
    using convert_RGBA_opaque by blast
  from n r' im a o s w t show ?thesis
    by blast
qed

theorem normalized_input_alpha_witness:
  "\<not> has_transparency_data (Image_RGB \<lparr>xsize = 1, ysize = 1, rows = [[(40, 50, 60)]]\<rparr> None)
   \<and> wf_image (Image_RGB \<lparr>xsize = 1, ysize = 1, rows = [[(40, 50, 60)]]\<rparr> None)
   \<and> (\<exists>r' h' g. normalize 0 [Image_RGB \<lparr>xsize = 1, ysize = 1, rows = [[(40, 50, 60)]]\<rparr> None] = (Inr r', h')
         \<and> h' ! r' = Image_RGBA g \<and> wf_raster g
         \<and> list_all (list_all (\<lambda>p. alpha p = 255)) (rows g))"
proof -
  have 1: "\<not> has_transparency_data (Image_RGB \<lparr>xsize = 1, ysize = 1, rows = [[(40, 50, 60)]]\<rparr> None)"
    by simp
  have 2: "wf_image (Image_RGB \<lparr>xsize = 1, ysize = 1, rows = [[(40, 50, 60)]]\<rparr> None)"
    by (simp add: wf_raster_def)
  have 3: "(0::nat) < length [Image_RGB \<lparr>xsize = 1, ysize = 1, rows = [[(40, 50, 60)]]\<rparr> None]"
    by simp
  from normalized_input_alpha [OF 3] 1 2 show ?thesis
    by (simp del: has_transparency_data.simps wf_image.simps) blast
qed

text \<open>
  C6. With no colour, the image \<^verbatim>\<open>remove_background\<close> returns is the array of the
  segmentation model read as an image, and reading it back as an array gives that
  array: no pixel is changed.
\<close>

theorem no_color_returns_segmentation_unchanged:
  assumes "input_image < length h"
    and "remove (Array_RGBA (convert_RGBA (h ! input_image))) = Inr arr"
  shows "returned (remove_background remove input_image None h) = Inr (fromarray arr)
         \<and> array_of (fromarray arr) = arr"
  using returned_None [of input_image h remove arr] assms by (simp add: array_of_fromarray)

theorem no_color_returns_segmentation_unchanged_witness:
  "returned (remove_background
       (\<lambda>a. Inr (Array_RGBA \<lparr>xsize = 2, ysize = 1, rows = [[(10, 20, 30, 255), (40, 50, 60, 0)]]\<rparr>))
       0 None
       [Image_RGB \<lparr>xsize = 2, ysize = 1, rows = [[(10, 20, 30), (40, 50, 60)]]\<rparr> None])
     = Inr (Image_RGBA \<lparr>xsize = 2, ysize = 1, rows = [[(10, 20, 30, 255), (40, 50, 60, 0)]]\<rparr>)"
  using no_color_returns_segmentation_unchanged
    [of 0 "[Image_RGB \<lparr>xsize = 2, ysize = 1, rows = [[(10, 20, 30), (40, 50, 60)]]\<rparr> None]"
        "\<lambda>a. Inr (Array_RGBA \<lparr>xsize = 2, ysize = 1, rows = [[(10, 20, 30, 255), (40, 50, 60, 0)]]\<rparr>)"
        "Array_RGBA \<lparr>xsize = 2, ysize = 1, rows = [[(10, 20, 30, 255), (40, 50, 60, 0)]]\<rparr>"]
  by simp

text \<open>
  C7. A call of \<^verbatim>\<open>remove_background\<close>, whether it returns or raises, leaves every image
  that was in the store before the call as it was, the caller's input image among
  them: the only image written to is the canvas, which the call creates.
\<close>

theorem caller_images_unchanged:
  assumes "remove_background remove input_image background_color h = (res, h')"
    and "r < length h"
  shows "r < length h' \<and> h' ! r = h ! r"
proof (cases "input_image < length h")
  case False
  from remove_background_bad_ref [OF False, of remove background_color] assms
  show ?thesis by simp
next
  case True
  from remove_background_eq [OF True, of remove background_color] assms
  show ?thesis
    by (auto simp: Let_def nth_append split: sum.splits option.splits if_splits)
qed

theorem caller_images_unchanged_witness:
  "remove_background
       (\<lambda>a. Inr (Array_RGBA \<lparr>xsize = 1, ysize = 1, rows = [[(40, 50, 60, 0)]]\<rparr>))
       0 (Some (Color3 0 255 0))
       [Image_RGBA \<lparr>xsize = 1, ysize = 1, rows = [[(40, 50, 60, 255)]]\<rparr>]
     = (Inr 4, [Image_RGBA \<lparr>xsize = 1, ysize = 1, rows = [[(40, 50, 60, 255)]]\<rparr>,
                Image_RGBA \<lparr>xsize = 1, ysize = 1, rows = [[(0, 255, 0, 255)]]\<rparr>,
                Image_RGBA \<lparr>xsize = 1, ysize = 1, rows = [[(40, 50, 60, 0)]]\<rparr>,
                Image_RGBA \<lparr>xsize = 1, ysize = 1, rows = [[(40, 50, 60, 0)]]\<rparr>,
                Image_RGBA \<lparr>xsize = 1, ysize = 1, rows = [[(0, 255, 0, 255)]]\<rparr>])
   \<and> [Image_RGBA \<lparr>xsize = 1, ysize = 1, rows = [[(40, 50, 60, 255)]]\<rparr>,
        Image_RGBA \<lparr>xsize = 1, ysize = 1, rows = [[(0, 255, 0, 255)]]\<rparr>,
        Image_RGBA \<lparr>xsize = 1, ysize = 1, rows = [[(40, 50, 60, 0)]]\<rparr>,
        Image_RGBA \<lparr>xsize = 1, ysize = 1, rows = [[(40, 50, 60, 0)]]\<rparr>,
        Image_RGBA \<lparr>xsize = 1, ysize = 1, rows = [[(0, 255, 0, 255)]]\<rparr>] ! 0
     = [Image_RGBA \<lparr>xsize = 1, ysize = 1, rows = [[(40, 50, 60, 255)]]\<rparr>] ! 0"
proof -
  have run: "remove_background
       (\<lambda>a. Inr (Array_RGBA \<lparr>xsize = 1, ysize = 1, rows = [[(40, 50, 60, 0)]]\<rparr>))
       0 (Some (Color3 0 255 0))
       [Image_RGBA \<lparr>xsize = 1, ysize = 1, rows = [[(40, 50, 60, 255)]]\<rparr>]
     = (Inr 4, [Image_RGBA \<lparr>xsize = 1, ysize = 1, rows = [[(40, 50, 60, 255)]]\<rparr>,
                Image_RGBA \<lparr>xsize = 1, ysize = 1, rows = [[(0, 255, 0, 255)]]\<rparr>,
                Image_RGBA \<lparr>xsize = 1, ysize = 1, rows = [[(40, 50, 60, 0)]]\<rparr>,
                Image_RGBA \<lparr>xsize = 1, ysize = 1, rows = [[(40, 50, 60, 0)]]\<rparr>,
                Image_RGBA \<lparr>xsize = 1, ysize = 1, rows = [[(0, 255, 0, 255)]]\<rparr>])"
    by (simp add: remove_background_eq ImagingPaste_def map_raster_def paste_mask_def fill_def
      getpixel_def blend_pixel_def alpha_def BLEND_def DIV255_def CLIP8_def
      fits_long_long_def fits_int_def)
  have len: "(0::nat) < length [Image_RGBA \<lparr>xsize = 1, ysize = 1, rows = [[(40, 50, 60, 255)]]\<rparr>]"
    by simp
  from caller_images_unchanged
    [of "\<lambda>a. Inr (Array_RGBA \<lparr>xsize = 1, ysize = 1, rows = [[(40, 50, 60, 0)]]\<rparr>)"
        0 "Some (Color3 0 255 0)"
        "[Image_RGBA \<lparr>xsize = 1, ysize = 1, rows = [[(40, 50, 60, 255)]]\<rparr>]"
        _ _ 0, OF run len]
  show ?thesis using run by simp
qed

text \<open>
  C9. With a colour, the returned image has the size of the normalized input image,
  whatever the size of the array the segmentation model returned; with no colour it has
  the size of that array.
\<close>

theorem output_size_follows_canvas_or_oracle:
  assumes "input_image < length h"
    and "remove (Array_RGBA (convert_RGBA (h ! input_image))) = Inr arr"
    and "returned (remove_background remove input_image background_color h) = Inr out"
  shows "size_of out =
           (case background_color of
              Some c \<Rightarrow> size_of (Image_RGBA (convert_RGBA (h ! input_image)))
            | None \<Rightarrow> array_size arr)"
proof (cases background_color)
  case (Some c)
  with assms(1,3) show ?thesis
    using returned_size_Some [of input_image h remove c out]
      size_of_convert [of "h ! input_image"] by (simp add: prod_eq_iff)
next
  case None
  with assms have "out = fromarray arr"
    using returned_None [of input_image h remove arr] by simp
  then have "size_of out = array_size arr"
    by (simp only: size_of_fromarray)
  with None show ?thesis
    by simp
qed

theorem output_size_follows_canvas_or_oracle_witness:
  "size_of (Image_RGBA \<lparr>xsize = 1, ysize = 1, rows = [[(7, 8, 9, 255)]]\<rparr>) = (1, 1)
   \<and> returned (remove_background
         (\<lambda>a. Inr (Array_RGBA \<lparr>xsize = 2, ysize = 1, rows = [[(7, 8, 9, 255), (1, 2, 3, 255)]]\<rparr>))
         0 (Some (Color3 0 255 0))
         [Image_RGB \<lparr>xsize = 1, ysize = 1, rows = [[(40, 50, 60)]]\<rparr> None])
       = Inr (Image_RGBA \<lparr>xsize = 1, ysize = 1, rows = [[(7, 8, 9, 255)]]\<rparr>)"
proof -
  have ink: "getink (Color3 0 255 0) = Inr (0, 255, 0, 255)"
    by (simp add: fits_long_long_def fits_int_def CLIP8_def)
  have run: "returned (remove_background
         (\<lambda>a. Inr (Array_RGBA \<lparr>xsize = 2, ysize = 1, rows = [[(7, 8, 9, 255), (1, 2, 3, 255)]]\<rparr>))
         0 (Some (Color3 0 255 0))
         [Image_RGB \<lparr>xsize = 1, ysize = 1, rows = [[(40, 50, 60)]]\<rparr> None])
       = Inr (Image_RGBA \<lparr>xsize = 1, ysize = 1, rows = [[(7, 8, 9, 255)]]\<rparr>)"
    by (simp add: returned_Some [OF _ _ ink] ImagingPaste_def map_raster_def paste_mask_def
      fill_def getpixel_def blend_pixel_def alpha_def BLEND_def DIV255_def)
  from output_size_follows_canvas_or_oracle
    [of 0 "[Image_RGB \<lparr>xsize = 1, ysize = 1, rows = [[(40, 50, 60)]]\<rparr> None]"
        "\<lambda>a. Inr (Array_RGBA \<lparr>xsize = 2, ysize = 1, rows = [[(7, 8, 9, 255), (1, 2, 3, 255)]]\<rparr>)"
        "Array_RGBA \<lparr>xsize = 2, ysize = 1, rows = [[(7, 8, 9, 255), (1, 2, 3, 255)]]\<rparr>"
        "Some (Color3 0 255 0)", OF _ _ run]
  show ?thesis using run by (simp add: map_raster_def)
qed

text \<open>
  C10. Normalization converts exactly when the mode is not \<^verbatim>\<open>RGBA\<close>: then it creates
  the converted image and leaves the input in place; an \<^verbatim>\<open>RGBA\<close> input is passed on
  as it is. For an input whose mode carries an alpha band (\<^verbatim>\<open>LA\<close>, \<^verbatim>\<open>RGBa\<close>, \<^verbatim>\<open>RGBA\<close>)
  the alpha band of the normalized image is the input's alpha band, value for value,
  so it is uniformly 255 only when the input's was.
\<close>

theorem normalize_converts_and_keeps_alpha:
  assumes "input_image < length h"
  shows "(mode (h ! input_image) \<noteq> RGBA \<longrightarrow>
            normalize input_image h =
              (Inr (length h), h @ [Image_RGBA (convert_RGBA (h ! input_image))]))
         \<and> (mode (h ! input_image) = RGBA \<longrightarrow> normalize input_image h = (Inr input_image, h))
         \<and> (\<exists>r' h'. normalize input_image h = (Inr r', h') \<and> r' < length h'
               \<and> h' ! r' = Image_RGBA (convert_RGBA (h ! input_image)))
         \<and> (mode (h ! input_image) \<in> {LA, RGBa, RGBA} \<longrightarrow>
               getchannel_A (h ! input_image) \<noteq> None)
         \<and> (\<forall>band. getchannel_A (h ! input_image) = Some band \<longrightarrow>
               getchannel_A (Image_RGBA (convert_RGBA (h ! input_image))) = Some band
               \<and> list_all (list_all (\<lambda>p. alpha p = 255)) (rows (convert_RGBA (h ! input_image)))
                 = list_all (list_all (\<lambda>a. a = 255)) band)"
proof (intro conjI allI impI)
  show "\<exists>r' h'. normalize input_image h = (Inr r', h') \<and> r' < length h'
               \<and> h' ! r' = Image_RGBA (convert_RGBA (h ! input_image))"
    using normalize_result [OF assms] .
next
  assume "mode (h ! input_image) \<in> {LA, RGBa, RGBA}"
  then show "getchannel_A (h ! input_image) \<noteq> None"
    by (cases "h ! input_image") simp_all
next
  fix band
  assume band: "getchannel_A (h ! input_image) = Some band"
  have keep: "map (map alpha) (rows (convert_RGBA (h ! input_image))) = band"
    using convert_RGBA_keeps_alpha [OF band] .
  then show "getchannel_A (Image_RGBA (convert_RGBA (h ! input_image))) = Some band"
    by simp
  show "list_all (list_all (\<lambda>p. alpha p = 255)) (rows (convert_RGBA (h ! input_image)))
                 = list_all (list_all (\<lambda>a. a = 255)) band"
    unfolding keep [symmetric] by (rule opaque_by_band)
qed (use assms in \<open>simp_all add: normalize_eq\<close>)

theorem normalize_converts_and_keeps_alpha_witness:
  "normalize 0 [Image_LA \<lparr>xsize = 2, ysize = 1, rows = [[(90, 7), (80, 255)]]\<rparr>]
     = (Inr 1, [Image_LA \<lparr>xsize = 2, ysize = 1, rows = [[(90, 7), (80, 255)]]\<rparr>,
                Image_RGBA (convert_RGBA (Image_LA \<lparr>xsize = 2, ysize = 1, rows = [[(90, 7), (80, 255)]]\<rparr>))])
   \<and> getchannel_A (Image_RGBA (convert_RGBA (Image_LA \<lparr>xsize = 2, ysize = 1, rows = [[(90, 7), (80, 255)]]\<rparr>)))
     = Some [[7, 255]]
   \<and> normalize 0 [Image_RGBa \<lparr>xsize = 2, ysize = 1, rows = [[(50, 25, 0, 100), (1, 2, 3, 255)]]\<rparr>]
     = (Inr 1, [Image_RGBa \<lparr>xsize = 2, ysize = 1, rows = [[(50, 25, 0, 100), (1, 2, 3, 255)]]\<rparr>,
                Image_RGBA (convert_RGBA (Image_RGBa \<lparr>xsize = 2, ysize = 1, rows = [[(50, 25, 0, 100), (1, 2, 3, 255)]]\<rparr>))])
   \<and> getchannel_A (Image_RGBA (convert_RGBA (Image_RGBa \<lparr>xsize = 2, ysize = 1, rows = [[(50, 25, 0, 100), (1, 2, 3, 255)]]\<rparr>)))
     = Some [[100, 255]]
   \<and> normalize 0 [Image_RGBA \<lparr>xsize = 1, ysize = 1, rows = [[(1, 2, 3, 4)]]\<rparr>]
     = (Inr 0, [Image_RGBA \<lparr>xsize = 1, ysize = 1, rows = [[(1, 2, 3, 4)]]\<rparr>])"
proof -
  have 1: "(0::nat) < length [Image_LA \<lparr>xsize = 2, ysize = 1, rows = [[(90, 7), (80, 255)]]\<rparr>]"
    by simp
  have 2: "(0::nat) < length [Image_RGBa \<lparr>xsize = 2, ysize = 1, rows = [[(50, 25, 0, 100), (1, 2, 3, 255)]]\<rparr>]"
    by simp
  have 3: "(0::nat) < length [Image_RGBA \<lparr>xsize = 1, ysize = 1, rows = [[(1, 2, 3, 4)]]\<rparr>]"
    by simp
  from normalize_converts_and_keeps_alpha [OF 1] normalize_converts_and_keeps_alpha [OF 2]
    normalize_converts_and_keeps_alpha [OF 3]
  show ?thesis
    by (simp add: alpha_def del: convert_RGBA.simps)
qed

text \<open>The converted pixels of the \<^verbatim>\<open>RGBa\<close> image above, colour bands included.\<close>

lemma convert_RGBa_example:
  "convert_RGBA (Image_RGBa \<lparr>xsize = 2, ysize = 1, rows = [[(50, 25, 0, 100), (1, 2, 3, 255)]]\<rparr>)
     = \<lparr>xsize = 2, ysize = 1, rows = [[(127, 63, 0, 100), (1, 2, 3, 255)]]\<rparr>"
  by (simp add: map_raster_def rgba2rgbA_def CLIP8_def)

section \<open>The claims about \<^verbatim>\<open>main\<close>\<close>

lemma try_body_success:
  assumes "remove_background remove input_image background_color h = (Inr output_image, h')"
    and "save_png (h' ! output_image) = Inr img_byte"
  shows "try_body remove save_png input_image background_color h =
           ([St_subheader ''Processed Image'', St_image (h' ! output_image),
             St_download_button img_byte ''processed_image.png'' ''image/png''], Inr ())"
  using assms remove_background_ref [OF assms(1)]
  by (simp add: try_body_def get_image_eq)

text \<open>
  Every exception raised inside the \<^verbatim>\<open>try\<close> block, by \<^verbatim>\<open>remove_background\<close> or by the
  PNG encoder, is shown with \<^verbatim>\<open>st.error\<close>, and the script runs to its end.
\<close>

lemma exceptions_in_try_are_reported:
  assumes "chosen_color getrgb background_option color_input = Inr background_color"
    and "Image_open f = Inr (Inr input_image)"
    and "try_body remove save_png 0 background_color [input_image] =
           (calls, Inl (Exception cls msg))"
  shows "main Image_open getrgb remove save_png (Some f) background_option color_input =
           ([St_set_page_config, St_title, St_write, St_write, St_file_uploader, St_radio]
              @ (if background_option = ''Custom Color'' then [St_color_picker] else [])
              @ [St_columns, St_subheader ''Original Image'', St_image input_image]
              @ calls
              @ [St_error (''An error occurred: '' @ msg), St_sidebar_info],
            Inr ())"
  using assms by (simp add: main_def Let_def)

lemma segmentation_error_is_reported:
  "main (\<lambda>f. Inr (Inr (Image_RGB \<lparr>xsize = 1, ysize = 1, rows = [[(40, 50, 60)]]\<rparr> None)))
        getrgb (\<lambda>a. Inl (Exception ''RuntimeError'' ''model failed'')) save_png
        (Some f) ''Transparent'' color_input
   = ([St_set_page_config, St_title, St_write, St_write, St_file_uploader, St_radio,
       St_columns, St_subheader ''Original Image'',
       St_image (Image_RGB \<lparr>xsize = 1, ysize = 1, rows = [[(40, 50, 60)]]\<rparr> None),
       St_error ''An error occurred: model failed'', St_sidebar_info],
      Inr ())"
  by (simp add: main_def chosen_color_def try_body_def remove_background_eq Let_def)

text \<open>
  Two more exceptions leave \<^verbatim>\<open>main\<close>: the one a truncated file raises when line 79
  decodes it, since that line too stands before the \<^verbatim>\<open>try\<close> block, and one that is
  not of class \<^verbatim>\<open>Exception\<close>, raised inside the block.
\<close>

lemma truncated_file_leaves_main:
  "main (\<lambda>f. Inr (Inl (Exception ''OSError'' ''image file is truncated'')))
        getrgb remove save_png (Some f) ''Transparent'' color_input
   = ([St_set_page_config, St_title, St_write, St_write, St_file_uploader, St_radio,
       St_columns, St_subheader ''Original Image''],
      Inl (Exception ''OSError'' ''image file is truncated''))"
  by (simp add: main_def chosen_color_def)

lemma base_exception_leaves_main:
  "main (\<lambda>f. Inr (Inr (Image_RGB \<lparr>xsize = 1, ysize = 1, rows = [[(40, 50, 60)]]\<rparr> None)))
        getrgb (\<lambda>a. Inl (BaseException ''KeyboardInterrupt'' [])) save_png
        (Some f) ''Transparent'' color_input
   = ([St_set_page_config, St_title, St_write, St_write, St_file_uploader, St_radio,
       St_columns, St_subheader ''Original Image'',
       St_image (Image_RGB \<lparr>xsize = 1, ysize = 1, rows = [[(40, 50, 60)]]\<rparr> None)],
      Inl (BaseException ''KeyboardInterrupt'' []))"
  by (simp add: main_def chosen_color_def try_body_def remove_background_eq Let_def)

text \<open>
  C2 does not hold of the code. \<^verbatim>\<open>Image.open(uploaded_file)\<close> (line 72) stands before the
  \<^verbatim>\<open>try\<close> block (lines 82-105): when the decoder raises, no \<^verbatim>\<open>st.error\<close> call is made
  and the exception leaves \<^verbatim>\<open>main\<close>, which stops before the sidebar.
\<close>

theorem decoding_error_leaves_main:
  "main (\<lambda>f. Inl (Exception ''UnidentifiedImageError'' ''cannot identify image file''))
        getrgb remove save_png (Some f) ''Transparent'' color_input
   = ([St_set_page_config, St_title, St_write, St_write, St_file_uploader, St_radio],
      Inl (Exception ''UnidentifiedImageError'' ''cannot identify image file''))"
  by (simp add: main_def chosen_color_def)

text \<open>
  C8. When an upload is processed with success (the colour, if any, parsed; the file
  identified and decoded; \<^verbatim>\<open>remove_background\<close> returned an image; the encoder returned its PNG bytes),
  the page ends with one download button whose data are those bytes, whose file name is
  \<^verbatim>\<open>processed_image.png\<close> and whose MIME type is \<^verbatim>\<open>image/png\<close>.
\<close>

theorem download_is_png_of_output:
  assumes "chosen_color getrgb background_option color_input = Inr background_color"
    and "Image_open f = Inr (Inr input_image)"
    and "remove_background remove 0 background_color [input_image] = (Inr output_image, h')"
    and "save_png (h' ! output_image) = Inr img_byte"
  shows "main Image_open getrgb remove save_png (Some f) background_option color_input =
           ([St_set_page_config, St_title, St_write, St_write, St_file_uploader, St_radio]
              @ (if background_option = ''Custom Color'' then [St_color_picker] else [])
              @ [St_columns, St_subheader ''Original Image'', St_image input_image,
                 St_subheader ''Processed Image'', St_image (h' ! output_image),
                 St_download_button img_byte ''processed_image.png'' ''image/png'',
                 St_sidebar_info],
            Inr ())"
  using assms(1,2)
    try_body_success [of remove 0 background_color "[input_image]" output_image h' save_png img_byte]
    assms(3,4)
  by (simp add: main_def Let_def)

theorem download_is_png_of_output_witness:
  "main (\<lambda>f. Inr (Inr (Image_RGB \<lparr>xsize = 1, ysize = 1, rows = [[(40, 50, 60)]]\<rparr> None)))
        (\<lambda>s. Inr (Color3 0 255 0))
        (\<lambda>a. Inr (Array_RGBA \<lparr>xsize = 1, ysize = 1, rows = [[(40, 50, 60, 0)]]\<rparr>))
        (\<lambda>im. Inr [137, 80, 78, 71])
        (Some [255, 216]) ''Transparent'' ''#FFFFFF''
   = ([St_set_page_config, St_title, St_write, St_write, St_file_uploader, St_radio,
       St_columns, St_subheader ''Original Image'',
       St_image (Image_RGB \<lparr>xsize = 1, ysize = 1, rows = [[(40, 50, 60)]]\<rparr> None),
       St_subheader ''Processed Image'',
       St_image (Image_RGBA \<lparr>xsize = 1, ysize = 1, rows = [[(40, 50, 60, 0)]]\<rparr>),
       St_download_button [137, 80, 78, 71] ''processed_image.png'' ''image/png'',
       St_sidebar_info],
      Inr ())"
proof -
  have 1: "chosen_color (\<lambda>s. Inr (Color3 0 255 0)) ''Transparent'' ''#FFFFFF'' = Inr None"
    by (simp add: chosen_color_def)
  have 3: "remove_background
             (\<lambda>a. Inr (Array_RGBA \<lparr>xsize = 1, ysize = 1, rows = [[(40, 50, 60, 0)]]\<rparr>))
             0 None [Image_RGB \<lparr>xsize = 1, ysize = 1, rows = [[(40, 50, 60)]]\<rparr> None]
           = (Inr 2, [Image_RGB \<lparr>xsize = 1, ysize = 1, rows = [[(40, 50, 60)]]\<rparr> None,
                      Image_RGBA \<lparr>xsize = 1, ysize = 1, rows = [[(40, 50, 60, 255)]]\<rparr>,
                      Image_RGBA \<lparr>xsize = 1, ysize = 1, rows = [[(40, 50, 60, 0)]]\<rparr>])"
    by (simp add: remove_background_eq map_raster_def rgb2rgba_def)
  from download_is_png_of_output
    [of "\<lambda>s. Inr (Color3 0 255 0)" "''Transparent''" "''#FFFFFF''" None
        "\<lambda>f. Inr (Inr (Image_RGB \<lparr>xsize = 1, ysize = 1, rows = [[(40, 50, 60)]]\<rparr> None))"
        "[255, 216]" "Image_RGB \<lparr>xsize = 1, ysize = 1, rows = [[(40, 50, 60)]]\<rparr> None"
        "\<lambda>a. Inr (Array_RGBA \<lparr>xsize = 1, ysize = 1, rows = [[(40, 50, 60, 0)]]\<rparr>)"
        2 _ "\<lambda>im. Inr [137, 80, 78, 71]" "[137, 80, 78, 71]"] 1 3
  show ?thesis by simp
qed

end
